theory Spec2Isabelle
  imports Main
begin

section \<open>The GCS-triggered document import handler (src/main.py)\<close>

text \<open>
  The repository is one Python function, \<open>import_document_on_gcs_event\<close>, run once per
  storage notification. It reads two fields of the event payload, prints some lines,
  builds one import request and blocks on the long-running operation.

  The embedding makes every effect of the function a value:
  \<^item> each \<open>print\<close> appends an entry to \<open>printed\<close>;
  \<^item> each construction of the Discovery Engine client appends the options it was given
    to \<open>client_calls\<close>;
  \<^item> each call of \<open>client.import_documents\<close> appends its request to \<open>import_calls\<close>;
  \<^item> the function either returns (\<open>Inr ()\<close>) or lets an exception escape (\<open>Inl e\<close>).
  The Google client library is not code of this repository: what its calls answer is a
  parameter of the model (the record \<open>service\<close> and the function \<open>branch_path\<close>).
\<close>

subsection \<open>Python values\<close>

text \<open>
  \<open>except Exception\<close> catches the subclasses of \<open>Exception\<close> only; a
  \<open>BaseException\<close> outside that class (KeyboardInterrupt, SystemExit) passes through it.
  The string carried is \<open>str(e)\<close>.
\<close>

datatype py_exn = Exception string | BaseException string

text \<open>
  \<open>dict.get\<close> and \<open>os.environ.get\<close> answer \<open>None\<close> for a missing key, so the
  values read are optional strings. \<open>falsy\<close> is the truth test of \<open>not v\<close>;
  \<open>fmt\<close> is what an f-string writes for \<open>{v}\<close>.
\<close>

fun falsy :: "string option \<Rightarrow> bool" where
  "falsy None = True"
| "falsy (Some s) = (s = [])"

fun fmt :: "string option \<Rightarrow> string" where
  "fmt None = ''None''"
| "fmt (Some s) = s"

subsection \<open>Data\<close>

text \<open>
  The event: \<open>cloud_event.data\<close> is a dictionary, \<open>cloud_event["type"]\<close> a required
  attribute of every CloudEvent.
\<close>

record cloud_event =
  data :: "string \<rightharpoonup> string"
  event_type :: string

text \<open>The three module constants, read from the environment when the module loads.\<close>

record config =
  PROJECT_ID :: "string option"
  LOCATION :: "string option"
  DATASTORE_ID :: "string option"

record ClientOptions =
  api_endpoint :: string

record GcsSource =
  input_uris :: "string list"
  data_schema :: string

datatype ReconciliationMode = RECONCILIATION_MODE_UNSPECIFIED | INCREMENTAL | FULL

record ImportDocumentsRequest =
  parent :: string
  gcs_source :: GcsSource
  reconciliation_mode :: ReconciliationMode

text \<open>
  The long-running operation handle: \<open>operation.operation.name\<close>, what
  \<open>operation.result()\<close> does once the wait ends, and \<open>operation.metadata\<close>.
\<close>

record ('r, 'm) operation =
  operation_name :: string
  result :: "py_exn + 'r"
  metadata :: 'm

text \<open>
  The indexing service and its library as the handler meets them: constructing the
  client (which loads credentials), submitting a request, and wrapping the raw metadata
  of the operation in \<open>discoveryengine.ImportDocumentsMetadata(...)\<close> (line 86) can each
  raise. \<open>'m\<close> is the raw metadata the operation carries, \<open>'d\<close> the wrapped
  metadata that is printed.
\<close>

record ('c, 'r, 'm, 'd) service =
  DocumentServiceClient :: "ClientOptions option \<Rightarrow> py_exn + 'c"
  import_documents :: "'c \<Rightarrow> ImportDocumentsRequest \<Rightarrow> py_exn + ('r, 'm) operation"
  ImportDocumentsMetadata :: "'m \<Rightarrow> py_exn + 'd"

text \<open>What a \<open>print\<close> wrote: a string, or the response or metadata object.\<close>

datatype ('r, 'd) entry = Line string | Response 'r | Metadata 'd

record ('r, 'd) trace =
  printed :: "('r, 'd) entry list"
  client_calls :: "ClientOptions option list"
  import_calls :: "ImportDocumentsRequest list"

definition no_trace :: "('r, 'd) trace" where
  "no_trace = \<lparr>printed = [], client_calls = [], import_calls = []\<rparr>"

definition print :: "('r, 'd) entry \<Rightarrow> ('r, 'd) trace \<Rightarrow> ('r, 'd) trace" where
  "print e t = t\<lparr>printed := printed t @ [e]\<rparr>"

subsection \<open>The handler\<close>

text \<open>Line 43: \<open>gcs_uri = f"gs://{bucket_name}/{file_name}"\<close>.\<close>

definition gcs_uri :: "string option \<Rightarrow> string option \<Rightarrow> string" where
  "gcs_uri bucket_name file_name = ''gs://'' @ fmt bucket_name @ ''/'' @ fmt file_name"

text \<open>Lines 49-53: the endpoint override, chosen from \<open>LOCATION\<close>.\<close>

definition client_options :: "config \<Rightarrow> ClientOptions option" where
  "client_options cfg =
     (if LOCATION cfg \<noteq> Some ''global''
      then Some \<lparr>api_endpoint = fmt (LOCATION cfg) @ ''-discoveryengine.googleapis.com''\<rparr>
      else None)"

text \<open>
  Lines 59-75: the parent path and the request. \<open>branch_path\<close> is the client library's
  path formatter, taken as the parameter \<open>bp\<close> (project, location, data store, branch).
\<close>

type_synonym branch_path = "string option \<Rightarrow> string option \<Rightarrow> string option \<Rightarrow> string \<Rightarrow> string"

definition request :: "branch_path \<Rightarrow> config \<Rightarrow> string \<Rightarrow> ImportDocumentsRequest" where
  "request bp cfg uri =
     \<lparr>parent = bp (PROJECT_ID cfg) (LOCATION cfg) (DATASTORE_ID cfg) ''default_branch'',
      gcs_source = \<lparr>input_uris = [uri], data_schema = ''content''\<rparr>,
      reconciliation_mode = INCREMENTAL\<rparr>"

text \<open>Lines 48-93: the body of the \<open>try\<close> block.\<close>

definition try_body ::
  "branch_path \<Rightarrow> config \<Rightarrow> ('c, 'r, 'm, 'd) service \<Rightarrow> string \<Rightarrow> ('r, 'd) trace
     \<Rightarrow> (py_exn + unit) \<times> ('r, 'd) trace" where
  "try_body bp cfg sv uri t0 =
     (let opts = client_options cfg;
          t1 = t0\<lparr>client_calls := client_calls t0 @ [opts]\<rparr>
      in case DocumentServiceClient sv opts of
           Inl e \<Rightarrow> (Inl e, t1)
         | Inr client \<Rightarrow>
             (let req = request bp cfg uri;
                  t2 = print (Line (''Starting document import for: '' @ uri)) t1;
                  t3 = t2\<lparr>import_calls := import_calls t2 @ [req]\<rparr>
              in case import_documents sv client req of
                   Inl e \<Rightarrow> (Inl e, t3)
                 | Inr operation \<Rightarrow>
                     (let t4 = print (Line (''Waiting for import operation to complete: ''
                                              @ operation_name operation)) t3
                      in case result operation of
                           Inl e \<Rightarrow> (Inl e, t4)
                         | Inr response \<Rightarrow>
                             (case ImportDocumentsMetadata sv (metadata operation) of
                                Inl e \<Rightarrow> (Inl e, t4)
                              | Inr metadata' \<Rightarrow>
                                  (Inr (),
                                   print (Line (''Successfully imported '' @ uri
                                             @ '' into datastore '' @ fmt (DATASTORE_ID cfg)))
                                    (print (Metadata metadata')
                                      (print (Line ''Import operation metadata:'')
                                        (print (Response response)
                                          (print (Line ''Import operation response:'')
                                            t4)))))))))"

text \<open>
  Lines 19-97: the whole function. The \<open>except Exception\<close> clause prints the locator
  and the error and falls off the end of the function; there is no \<open>raise\<close> in it.
\<close>

definition import_document_on_gcs_event ::
  "branch_path \<Rightarrow> config \<Rightarrow> ('c, 'r, 'm, 'd) service \<Rightarrow> cloud_event
     \<Rightarrow> (py_exn + unit) \<times> ('r, 'd) trace" where
  "import_document_on_gcs_event bp cfg sv cloud_event =
     (let bucket_name = data cloud_event ''bucket'';
          file_name = data cloud_event ''name'';
          t = print (Line (''File: '' @ fmt file_name))
                (print (Line (''Bucket: '' @ fmt bucket_name))
                  (print (Line (''Event type: '' @ event_type cloud_event)) no_trace))
      in if falsy file_name \<or> falsy bucket_name
         then (Inr (),
               print (Line ''No file name or bucket name found in the event data. Exiting.'') t)
         else
           (let uri = gcs_uri bucket_name file_name;
                t' = print (Line (''Constructed GCS URI: '' @ uri)) t
            in case try_body bp cfg sv uri t' of
                 (Inl (Exception msg), t'') \<Rightarrow>
                   (Inr (), print (Line (''Error importing document '' @ uri @ '': '' @ msg)) t'')
               | other \<Rightarrow> other))"

subsection \<open>Concrete inputs\<close>

text \<open>The example scenario: an event for one object, and a configuration.\<close>

definition ex_event :: cloud_event where
  "ex_event = \<lparr>data = [''bucket'' \<mapsto> ''docs-bucket'', ''name'' \<mapsto> ''folder/report.pdf''],
               event_type = ''google.cloud.storage.object.v1.finalized''\<rparr>"

definition ex_config :: config where
  "ex_config = \<lparr>PROJECT_ID = Some ''proj1'', LOCATION = Some ''global'', DATASTORE_ID = Some ''ds1''\<rparr>"

definition ex_branch_path :: branch_path where
  "ex_branch_path project location data_store branch =
     ''projects/'' @ fmt project @ ''/locations/'' @ fmt location
       @ ''/dataStores/'' @ fmt data_store @ ''/branches/'' @ branch"

text \<open>Events with one field missing, a deletion event for the same object, a regional configuration.\<close>

definition ex_event_no_bucket :: cloud_event where
  "ex_event_no_bucket = \<lparr>data = [''name'' \<mapsto> ''folder/report.pdf''],
                         event_type = ''google.cloud.storage.object.v1.finalized''\<rparr>"

definition ex_event_no_name :: cloud_event where
  "ex_event_no_name = \<lparr>data = [''bucket'' \<mapsto> ''docs-bucket''],
                       event_type = ''google.cloud.storage.object.v1.finalized''\<rparr>"

definition ex_event_deleted :: cloud_event where
  "ex_event_deleted = \<lparr>data = [''bucket'' \<mapsto> ''docs-bucket'', ''name'' \<mapsto> ''folder/report.pdf''],
                       event_type = ''google.cloud.storage.object.v1.deleted''\<rparr>"

definition ex_config_us :: config where
  "ex_config_us = \<lparr>PROJECT_ID = Some ''proj1'', LOCATION = Some ''us'', DATASTORE_ID = Some ''ds1''\<rparr>"

text \<open>
  Four behaviours of the service: every call succeeds; the submission is refused; the
  client cannot be constructed; the import completes but its metadata cannot be wrapped.
\<close>

definition ex_operation :: "(string, string) operation" where
  "ex_operation = \<lparr>operation_name = ''operations/import-1'', result = Inr ''response'',
                   metadata = ''metadata''\<rparr>"

definition ok_service :: "(unit, string, string, string) service" where
  "ok_service = \<lparr>DocumentServiceClient = (\<lambda>_. Inr ()),
                 import_documents = (\<lambda>_ _. Inr ex_operation),
                 ImportDocumentsMetadata = (\<lambda>m. Inr m)\<rparr>"

definition submit_fails :: "(unit, string, string, string) service" where
  "submit_fails = \<lparr>DocumentServiceClient = (\<lambda>_. Inr ()),
                   import_documents = (\<lambda>_ _. Inl (Exception ''403 permission denied'')),
                   ImportDocumentsMetadata = (\<lambda>m. Inr m)\<rparr>"

definition no_credentials :: "(unit, string, string, string) service" where
  "no_credentials = \<lparr>DocumentServiceClient = (\<lambda>_. Inl (Exception ''credentials not found'')),
                     import_documents = (\<lambda>_ _. Inr ex_operation),
                     ImportDocumentsMetadata = (\<lambda>m. Inr m)\<rparr>"

definition metadata_fails :: "(unit, string, string, string) service" where
  "metadata_fails = \<lparr>DocumentServiceClient = (\<lambda>_. Inr ()),
                     import_documents = (\<lambda>_ _. Inr ex_operation),
                     ImportDocumentsMetadata = (\<lambda>_. Inl (Exception ''bad metadata''))\<rparr>"

section \<open>Properties\<close>

lemmas handler_defs = import_document_on_gcs_event_def try_body_def print_def no_trace_def Let_def

lemmas ex_defs = ex_event_def ex_config_def ex_branch_path_def ex_operation_def ok_service_def
  submit_fails_def no_credentials_def metadata_fails_def ex_event_no_bucket_def
  ex_event_no_name_def ex_config_us_def

text \<open>Whatever the service answers, the only request the handler can submit is the one built
  from the configuration and the locator of the event.\<close>

lemma import_calls_request:
  "set (import_calls (snd (import_document_on_gcs_event bp cfg sv ev)))
     \<subseteq> {request bp cfg (gcs_uri (data ev ''bucket'') (data ev ''name''))}"
  by (simp add: handler_defs split: sum.splits py_exn.splits)

subsection \<open>Error handling of the import\<close>

text \<open>
  C1, as stated, fails. The submission is refused with an exception, and the handler
  returns normally: the \<open>except Exception\<close> clause prints and ends the function, nothing
  reaches the caller.
\<close>

theorem exception_swallowed_counterexample:
  "import_documents submit_fails ()
      (request ex_branch_path ex_config ''gs://docs-bucket/folder/report.pdf'')
     = Inl (Exception ''403 permission denied'')
   \<and> fst (import_document_on_gcs_event ex_branch_path ex_config submit_fails ex_event) = Inr ()"
  by (simp add: handler_defs ex_defs gcs_uri_def client_options_def)

text \<open>
  C1, amended. If the submission, or the wait for the operation result, raises an
  \<open>Exception\<close>, the handler prints one last line holding the locator and the error
  text, and returns normally: the error is not propagated.
\<close>

theorem exception_logged_not_propagated:
  assumes "data ev ''bucket'' = Some b" and "data ev ''name'' = Some n"
    and "b \<noteq> []" and "n \<noteq> []"
    and "DocumentServiceClient sv (client_options cfg) = Inr c"
    and "import_documents sv c (request bp cfg (''gs://'' @ b @ ''/'' @ n)) = Inl (Exception msg)
         \<or> (\<exists>op. import_documents sv c (request bp cfg (''gs://'' @ b @ ''/'' @ n)) = Inr op
                 \<and> result op = Inl (Exception msg))"
  shows "fst (import_document_on_gcs_event bp cfg sv ev) = Inr ()
    \<and> last (printed (snd (import_document_on_gcs_event bp cfg sv ev)))
        = Line (''Error importing document '' @ ''gs://'' @ b @ ''/'' @ n @ '': '' @ msg)"
  using assms by (auto simp add: handler_defs gcs_uri_def)

theorem exception_logged_not_propagated_witness:
  "fst (import_document_on_gcs_event ex_branch_path ex_config submit_fails ex_event) = Inr ()
   \<and> last (printed (snd (import_document_on_gcs_event ex_branch_path ex_config submit_fails ex_event)))
       = Line ''Error importing document gs://docs-bucket/folder/report.pdf: 403 permission denied''"
  using exception_logged_not_propagated [of ex_event "''docs-bucket''" "''folder/report.pdf''"
      submit_fails ex_config "()" ex_branch_path "''403 permission denied''"]
  by (simp add: ex_event_def submit_fails_def)

subsection \<open>The locator\<close>

text \<open>
  C2. For a bucket \<open>b\<close> and an object key \<open>n\<close>, both present and non-empty, the locator
  is exactly "gs://" + b + "/" + n, and that is the locator the handler prints. The right
  hand side mentions \<open>b\<close> and \<open>n\<close> only: the event kind, the configuration and the
  service have no part in it, so the same pair always gives the same locator.
\<close>

theorem locator_is_concatenation:
  assumes "data ev ''bucket'' = Some b" and "data ev ''name'' = Some n"
    and "b \<noteq> []" and "n \<noteq> []"
  shows "gcs_uri (data ev ''bucket'') (data ev ''name'') = ''gs://'' @ b @ ''/'' @ n
    \<and> printed (snd (import_document_on_gcs_event bp cfg sv ev)) ! 3
        = Line (''Constructed GCS URI: '' @ ''gs://'' @ b @ ''/'' @ n)"
  using assms by (simp add: handler_defs gcs_uri_def split: sum.splits py_exn.splits)

theorem locator_is_concatenation_witness:
  "gcs_uri (data ex_event ''bucket'') (data ex_event ''name'') = ''gs://docs-bucket/folder/report.pdf''
   \<and> printed (snd (import_document_on_gcs_event ex_branch_path ex_config ok_service ex_event)) ! 3
        = Line ''Constructed GCS URI: gs://docs-bucket/folder/report.pdf''"
  using locator_is_concatenation [of ex_event "''docs-bucket''" "''folder/report.pdf''"
      ex_branch_path ex_config ok_service]
  by (simp add: ex_event_def)

text \<open>
  C10. The locator construction is not injective: bucket and object key are written
  verbatim, so the pairs ("a", "b/c") and ("a/b", "c") are distinct and both give
  "gs://a/b/c".
\<close>

theorem gcs_uri_not_injective:
  "gcs_uri (Some ''a'') (Some ''b/c'') = ''gs://a/b/c''
   \<and> gcs_uri (Some ''a/b'') (Some ''c'') = ''gs://a/b/c''
   \<and> (''a'', ''b/c'') \<noteq> (''a/b'', ''c'')
   \<and> \<not> inj (\<lambda>(b, n). gcs_uri (Some b) (Some n))"
proof -
  have a: "gcs_uri (Some ''a'') (Some ''b/c'') = ''gs://a/b/c''"
    by (simp add: gcs_uri_def)
  have b: "gcs_uri (Some ''a/b'') (Some ''c'') = ''gs://a/b/c''"
    by (simp add: gcs_uri_def)
  have c: "(''a'', ''b/c'') \<noteq> (''a/b'', ''c'')"
    by simp
  have "\<not> inj (\<lambda>(b, n). gcs_uri (Some b) (Some n))"
  proof
    assume "inj (\<lambda>(b, n). gcs_uri (Some b) (Some n))"
    then have "(''a'', ''b/c'') = (''a/b'', ''c'')"
      by (rule injD) (simp add: a b)
    with c show False ..
  qed
  with a b c show ?thesis by blast
qed

subsection \<open>The submitted request\<close>

text \<open>
  C3, as stated, fails. The event is valid, but the client cannot be constructed
  (line 56 raises inside the \<open>try\<close> block), and the handler ends without having
  submitted any request.
\<close>

theorem no_client_no_request_counterexample:
  "\<not> falsy (data ex_event ''bucket'') \<and> \<not> falsy (data ex_event ''name'')
   \<and> import_calls (snd (import_document_on_gcs_event ex_branch_path ex_config no_credentials
        ex_event)) = []"
  by (simp add: handler_defs ex_defs gcs_uri_def client_options_def)

text \<open>
  C3, amended. For every valid event for which the client is constructed, the handler
  calls \<open>import_documents\<close> exactly once; the request holds the one locator of the
  event, the schema "content", the mode INCREMENTAL, and as parent the branch path of
  the configured project, location and data store with the branch "default_branch".
\<close>

theorem one_incremental_request:
  assumes "data ev ''bucket'' = Some b" and "data ev ''name'' = Some n"
    and "b \<noteq> []" and "n \<noteq> []"
    and "DocumentServiceClient sv (client_options cfg) = Inr c"
  shows "import_calls (snd (import_document_on_gcs_event bp cfg sv ev))
    = [\<lparr>parent = bp (PROJECT_ID cfg) (LOCATION cfg) (DATASTORE_ID cfg) ''default_branch'',
         gcs_source = \<lparr>input_uris = [''gs://'' @ b @ ''/'' @ n], data_schema = ''content''\<rparr>,
         reconciliation_mode = INCREMENTAL\<rparr>]"
  using assms
  by (simp add: handler_defs gcs_uri_def request_def split: sum.splits py_exn.splits)

theorem one_incremental_request_witness:
  "import_calls (snd (import_document_on_gcs_event ex_branch_path ex_config ok_service ex_event))
    = [\<lparr>parent = ''projects/proj1/locations/global/dataStores/ds1/branches/default_branch'',
         gcs_source = \<lparr>input_uris = [''gs://docs-bucket/folder/report.pdf''],
                       data_schema = ''content''\<rparr>,
         reconciliation_mode = INCREMENTAL\<rparr>]"
  using one_incremental_request [of ex_event "''docs-bucket''" "''folder/report.pdf''"
      ok_service ex_config "()" ex_branch_path]
  by (simp add: ex_event_def ok_service_def ex_config_def ex_branch_path_def)

text \<open>
  C7. Two invocations with the same event under the same configuration, whatever the
  service does in each of them: a request submitted by the first and a request submitted
  by the second are the same request, with the same locator, parent, schema and mode.
\<close>

theorem redelivery_same_request:
  assumes "r1 \<in> set (import_calls (snd (import_document_on_gcs_event bp cfg sv1 ev)))"
    and "r2 \<in> set (import_calls (snd (import_document_on_gcs_event bp cfg sv2 ev)))"
  shows "r1 = r2
    \<and> input_uris (gcs_source r1) = input_uris (gcs_source r2)
    \<and> parent r1 = parent r2
    \<and> data_schema (gcs_source r1) = data_schema (gcs_source r2)
    \<and> reconciliation_mode r1 = reconciliation_mode r2"
proof -
  let ?req = "request bp cfg (gcs_uri (data ev ''bucket'') (data ev ''name''))"
  from assms(1) import_calls_request [of bp cfg sv1 ev] have "r1 = ?req" by blast
  moreover from assms(2) import_calls_request [of bp cfg sv2 ev] have "r2 = ?req" by blast
  ultimately show ?thesis by simp
qed

theorem redelivery_same_request_witness:
  "import_calls (snd (import_document_on_gcs_event ex_branch_path ex_config ok_service ex_event))
     = [request ex_branch_path ex_config ''gs://docs-bucket/folder/report.pdf'']
   \<and> import_calls (snd (import_document_on_gcs_event ex_branch_path ex_config submit_fails ex_event))
     = [request ex_branch_path ex_config ''gs://docs-bucket/folder/report.pdf'']
   \<and> hd (import_calls (snd (import_document_on_gcs_event ex_branch_path ex_config ok_service
            ex_event)))
     = hd (import_calls (snd (import_document_on_gcs_event ex_branch_path ex_config submit_fails
            ex_event)))"
proof -
  let ?r = "request ex_branch_path ex_config ''gs://docs-bucket/folder/report.pdf''"
  let ?ok = "import_calls (snd (import_document_on_gcs_event ex_branch_path ex_config ok_service
                ex_event))"
  let ?ko = "import_calls (snd (import_document_on_gcs_event ex_branch_path ex_config submit_fails
                ex_event))"
  have a: "?ok = [?r]"
    by (simp add: handler_defs ex_defs gcs_uri_def client_options_def)
  have b: "?ko = [?r]"
    by (simp add: handler_defs ex_defs gcs_uri_def client_options_def)
  have "hd ?ok \<in> set ?ok" and "hd ?ko \<in> set ?ko"
    by (simp_all add: a b)
  then have "hd ?ok = hd ?ko"
    using redelivery_same_request [of "hd ?ok" ex_branch_path ex_config ok_service ex_event
        "hd ?ko" submit_fails]
    by blast
  with a b show ?thesis by blast
qed

text \<open>
  C8. Two events that agree on bucket and name, whatever their event kinds: the handler
  ends the same way, constructs the client the same way and submits the same requests,
  and what it prints differs in the first line only, the one that shows the event kind.
\<close>

theorem event_type_only_in_first_line:
  assumes "data e1 ''bucket'' = data e2 ''bucket''" and "data e1 ''name'' = data e2 ''name''"
  shows "fst (import_document_on_gcs_event bp cfg sv e1)
      = fst (import_document_on_gcs_event bp cfg sv e2)
    \<and> import_calls (snd (import_document_on_gcs_event bp cfg sv e1))
      = import_calls (snd (import_document_on_gcs_event bp cfg sv e2))
    \<and> client_calls (snd (import_document_on_gcs_event bp cfg sv e1))
      = client_calls (snd (import_document_on_gcs_event bp cfg sv e2))
    \<and> tl (printed (snd (import_document_on_gcs_event bp cfg sv e1)))
      = tl (printed (snd (import_document_on_gcs_event bp cfg sv e2)))
    \<and> hd (printed (snd (import_document_on_gcs_event bp cfg sv e1)))
      = Line (''Event type: '' @ event_type e1)
    \<and> hd (printed (snd (import_document_on_gcs_event bp cfg sv e2)))
      = Line (''Event type: '' @ event_type e2)"
  using assms by (simp add: handler_defs split: sum.splits py_exn.splits)

theorem event_type_only_in_first_line_witness:
  "event_type ex_event \<noteq> event_type ex_event_deleted
   \<and> fst (import_document_on_gcs_event ex_branch_path ex_config ok_service ex_event)
      = fst (import_document_on_gcs_event ex_branch_path ex_config ok_service ex_event_deleted)
   \<and> import_calls (snd (import_document_on_gcs_event ex_branch_path ex_config ok_service ex_event))
      = import_calls (snd (import_document_on_gcs_event ex_branch_path ex_config ok_service
          ex_event_deleted))
   \<and> tl (printed (snd (import_document_on_gcs_event ex_branch_path ex_config ok_service ex_event)))
      = tl (printed (snd (import_document_on_gcs_event ex_branch_path ex_config ok_service
          ex_event_deleted)))"
  using event_type_only_in_first_line [of ex_event ex_event_deleted ex_branch_path ex_config ok_service]
  by (simp add: ex_event_def ex_event_deleted_def)

text \<open>
  C9. For a valid event the client is constructed once. If \<open>LOCATION\<close> is not the
  string "global", it is given the endpoint "{LOCATION}-discoveryengine.googleapis.com";
  if it is "global", it is given no options.
\<close>

theorem endpoint_follows_location:
  assumes "\<not> falsy (data ev ''bucket'')" and "\<not> falsy (data ev ''name'')"
  shows "(LOCATION cfg \<noteq> Some ''global'' \<longrightarrow>
            client_calls (snd (import_document_on_gcs_event bp cfg sv ev))
              = [Some \<lparr>api_endpoint = fmt (LOCATION cfg) @ ''-discoveryengine.googleapis.com''\<rparr>])
       \<and> (LOCATION cfg = Some ''global'' \<longrightarrow>
            client_calls (snd (import_document_on_gcs_event bp cfg sv ev)) = [None])"
  using assms
  by (simp add: handler_defs client_options_def split: sum.splits py_exn.splits)

theorem endpoint_follows_location_witness:
  "client_calls (snd (import_document_on_gcs_event ex_branch_path ex_config_us ok_service ex_event))
     = [Some \<lparr>api_endpoint = ''us-discoveryengine.googleapis.com''\<rparr>]
   \<and> client_calls (snd (import_document_on_gcs_event ex_branch_path ex_config ok_service ex_event))
     = [None]"
  using endpoint_follows_location [of ex_event ex_config_us ex_branch_path ok_service]
    endpoint_follows_location [of ex_event ex_config ex_branch_path ok_service]
  by (simp add: ex_event_def ex_config_us_def ex_config_def)

subsection \<open>Events without a bucket or a name\<close>

text \<open>
  C4. If the bucket or the name is absent or empty, the handler returns normally, and
  it has neither constructed the client nor submitted a request.
\<close>

theorem missing_field_no_op:
  assumes "falsy (data ev ''bucket'') \<or> falsy (data ev ''name'')"
  shows "fst (import_document_on_gcs_event bp cfg sv ev) = Inr ()
    \<and> client_calls (snd (import_document_on_gcs_event bp cfg sv ev)) = []
    \<and> import_calls (snd (import_document_on_gcs_event bp cfg sv ev)) = []"
  using assms by (auto simp add: handler_defs)

theorem missing_field_no_op_witness:
  "(falsy (data ex_event_no_name ''bucket'') \<or> falsy (data ex_event_no_name ''name''))
   \<and> fst (import_document_on_gcs_event ex_branch_path ex_config ok_service ex_event_no_name) = Inr ()
   \<and> client_calls (snd (import_document_on_gcs_event ex_branch_path ex_config ok_service
        ex_event_no_name)) = []
   \<and> import_calls (snd (import_document_on_gcs_event ex_branch_path ex_config ok_service
        ex_event_no_name)) = []"
  using missing_field_no_op [of ex_event_no_name ex_branch_path ex_config ok_service]
  by (simp add: ex_event_no_name_def)

text \<open>
  C5, as stated, fails. An event without a bucket and an event without a name get the
  same diagnostic, word for word: it does not tell which field is missing. (The lines
  that show the raw values, printed for every event, are where the two runs differ.)
\<close>

theorem diagnostic_same_for_either_field_counterexample:
  "printed (snd (import_document_on_gcs_event ex_branch_path ex_config ok_service ex_event_no_bucket))
     = [Line ''Event type: google.cloud.storage.object.v1.finalized'',
        Line ''Bucket: None'',
        Line ''File: folder/report.pdf'',
        Line ''No file name or bucket name found in the event data. Exiting.'']
   \<and> printed (snd (import_document_on_gcs_event ex_branch_path ex_config ok_service ex_event_no_name))
     = [Line ''Event type: google.cloud.storage.object.v1.finalized'',
        Line ''Bucket: docs-bucket'',
        Line ''File: None'',
        Line ''No file name or bucket name found in the event data. Exiting.'']"
  by (simp add: handler_defs ex_defs)

text \<open>
  C5, amended. If the bucket or the name is absent or empty, the handler prints the
  three lines it prints for every event (event kind, bucket, file) and then exactly one
  diagnostic, the fixed message "No file name or bucket name found in the event data.
  Exiting.", the same whichever field is missing.
\<close>

theorem missing_field_fixed_diagnostic:
  assumes "falsy (data ev ''bucket'') \<or> falsy (data ev ''name'')"
  shows "printed (snd (import_document_on_gcs_event bp cfg sv ev))
    = [Line (''Event type: '' @ event_type ev),
       Line (''Bucket: '' @ fmt (data ev ''bucket'')),
       Line (''File: '' @ fmt (data ev ''name'')),
       Line ''No file name or bucket name found in the event data. Exiting.'']"
  using assms by (auto simp add: handler_defs)

theorem missing_field_fixed_diagnostic_witness:
  "printed (snd (import_document_on_gcs_event ex_branch_path ex_config_us submit_fails
      ex_event_no_bucket))
    = [Line ''Event type: google.cloud.storage.object.v1.finalized'',
       Line ''Bucket: None'',
       Line ''File: folder/report.pdf'',
       Line ''No file name or bucket name found in the event data. Exiting.'']"
  using missing_field_fixed_diagnostic [of ex_event_no_bucket ex_branch_path ex_config_us submit_fails]
  by (simp add: ex_event_no_bucket_def)

subsection \<open>A completed import\<close>

text \<open>
  C6, as stated, fails. The import completes (the wait answers a response), but wrapping
  the metadata at line 86 raises inside the \<open>try\<close> block, before any of the result
  prints: the handler prints the error line and has logged neither the response nor the
  metadata.
\<close>

theorem metadata_failure_logs_nothing_counterexample:
  "import_documents metadata_fails ()
      (request ex_branch_path ex_config ''gs://docs-bucket/folder/report.pdf'') = Inr ex_operation
   \<and> result ex_operation = Inr ''response''
   \<and> fst (import_document_on_gcs_event ex_branch_path ex_config metadata_fails ex_event) = Inr ()
   \<and> printed (snd (import_document_on_gcs_event ex_branch_path ex_config metadata_fails ex_event))
      = [Line ''Event type: google.cloud.storage.object.v1.finalized'',
         Line ''Bucket: docs-bucket'',
         Line ''File: folder/report.pdf'',
         Line ''Constructed GCS URI: gs://docs-bucket/folder/report.pdf'',
         Line ''Starting document import for: gs://docs-bucket/folder/report.pdf'',
         Line ''Waiting for import operation to complete: operations/import-1'',
         Line ''Error importing document gs://docs-bucket/folder/report.pdf: bad metadata'']"
  by (simp add: handler_defs ex_defs gcs_uri_def client_options_def)

text \<open>
  C6, amended. If the client is constructed, the submission answers an operation, the
  wait on it answers a response, and the metadata of the operation is wrapped without
  error, the handler prints the response and the wrapped metadata, then the success
  line, and returns normally.
\<close>

theorem success_logs_response_and_metadata:
  assumes "data ev ''bucket'' = Some b" and "data ev ''name'' = Some n"
    and "b \<noteq> []" and "n \<noteq> []"
    and "DocumentServiceClient sv (client_options cfg) = Inr c"
    and "import_documents sv c (request bp cfg (''gs://'' @ b @ ''/'' @ n)) = Inr op"
    and "result op = Inr response"
    and "ImportDocumentsMetadata sv (metadata op) = Inr md"
  shows "fst (import_document_on_gcs_event bp cfg sv ev) = Inr ()
    \<and> printed (snd (import_document_on_gcs_event bp cfg sv ev))
      = [Line (''Event type: '' @ event_type ev),
         Line (''Bucket: '' @ b),
         Line (''File: '' @ n),
         Line (''Constructed GCS URI: '' @ ''gs://'' @ b @ ''/'' @ n),
         Line (''Starting document import for: '' @ ''gs://'' @ b @ ''/'' @ n),
         Line (''Waiting for import operation to complete: '' @ operation_name op),
         Line ''Import operation response:'',
         Response response,
         Line ''Import operation metadata:'',
         Metadata md,
         Line (''Successfully imported '' @ ''gs://'' @ b @ ''/'' @ n
                 @ '' into datastore '' @ fmt (DATASTORE_ID cfg))]"
  using assms by (simp add: handler_defs gcs_uri_def)

theorem success_logs_response_and_metadata_witness:
  "fst (import_document_on_gcs_event ex_branch_path ex_config ok_service ex_event) = Inr ()
   \<and> printed (snd (import_document_on_gcs_event ex_branch_path ex_config ok_service ex_event))
      = [Line ''Event type: google.cloud.storage.object.v1.finalized'',
         Line ''Bucket: docs-bucket'',
         Line ''File: folder/report.pdf'',
         Line ''Constructed GCS URI: gs://docs-bucket/folder/report.pdf'',
         Line ''Starting document import for: gs://docs-bucket/folder/report.pdf'',
         Line ''Waiting for import operation to complete: operations/import-1'',
         Line ''Import operation response:'',
         Response ''response'',
         Line ''Import operation metadata:'',
         Metadata ''metadata'',
         Line ''Successfully imported gs://docs-bucket/folder/report.pdf into datastore ds1'']"
  using success_logs_response_and_metadata [of ex_event "''docs-bucket''" "''folder/report.pdf''"
      ok_service ex_config "()" ex_branch_path ex_operation "''response''" "''metadata''"]
  by (simp add: ex_event_def ok_service_def ex_operation_def ex_config_def)

end
